theory Spec2Isabelle
  imports Complex_Main "HOL-Library.Word"
begin

section \<open>Trajectory spline fitting (plugins/trajectory/filters/SplineFit.hpp)\<close>

text \<open>
  The numeric type \<open>T\<close> of the templates and the type \<open>double\<close> are modelled by the
  real numbers: there is no infinity and no NaN, and the arithmetic of the evaluator
  and of the constraint functors is exact. In \<open>tconvert\<close>, where the rounding of a
  quotient decides which block a time falls into, every operation on doubles rounds
  its exact result, and the rounding function is a parameter of the model. Where the
  source divides by a value that may be zero, or converts a \<open>double\<close> to an \<open>int\<close>,
  the model says so explicitly. The type \<open>int\<close> is the 32-bit two's complement
  integer.
\<close>

subsection \<open>SplineFitScalar::EndPointCubic\<close>

text \<open>
  The output pointers \<open>v\<close> and \<open>a\<close> are optional cells: \<open>None\<close> is the null pointer,
  \<open>Some x\<close> a cell that holds \<open>x\<close> before the call. The function returns its value
  together with the two cells after the call.
\<close>

definition EndPointCubic ::
  "real \<Rightarrow> real \<Rightarrow> real \<Rightarrow> real \<Rightarrow> real \<Rightarrow> real option \<Rightarrow> real option
     \<Rightarrow> real \<times> real option \<times> real option" where
  "EndPointCubic rm vm rp vp t v a =
     (let rs = rp + rm; rd = rp - rm; vs = vp + vm; vd = vp - vm;
          a0 = (4 * rs - vd) / 8; a1 = (6 * rd - vs) / 4; a2 = vd / 2;
          a3 = - 2 * rd + vs;
          v' = (case v of None \<Rightarrow> None
                | Some _ \<Rightarrow> Some (t * (t * 3 * a3 + 2 * a2) + a1));
          a' = (case a of None \<Rightarrow> None
                | Some _ \<Rightarrow> Some (t * 6 * a3 + 2 * a2))
      in (t * (t * (t * a3 + a2) + a1) + a0, v', a'))"

text \<open>The three results of a call that supplies both output cells.\<close>

definition cubic_position :: "real \<Rightarrow> real \<Rightarrow> real \<Rightarrow> real \<Rightarrow> real \<Rightarrow> real" where
  "cubic_position rm vm rp vp t = fst (EndPointCubic rm vm rp vp t (Some 0) (Some 0))"

definition cubic_velocity :: "real \<Rightarrow> real \<Rightarrow> real \<Rightarrow> real \<Rightarrow> real \<Rightarrow> real" where
  "cubic_velocity rm vm rp vp t =
     the (fst (snd (EndPointCubic rm vm rp vp t (Some 0) (Some 0))))"

definition cubic_acceleration :: "real \<Rightarrow> real \<Rightarrow> real \<Rightarrow> real \<Rightarrow> real \<Rightarrow> real" where
  "cubic_acceleration rm vm rp vp t =
     the (snd (snd (EndPointCubic rm vm rp vp t (Some 0) (Some 0))))"

subsection \<open>The type int and the conversion from double\<close>

definition INT_MIN :: int where
  "INT_MIN = - (2 ^ 31)"

definition INT_MAX :: int where
  "INT_MAX = 2 ^ 31 - 1"

text \<open>
  \<open>UndefinedBehaviour\<close>: the C++ standard gives the operation no meaning (signed
  overflow, a floating value converted to an \<open>int\<close> that cannot hold it, a read or
  write outside an array). \<open>LengthError\<close>: \<open>std::vector\<close> refuses the requested size
  by throwing.
\<close>

datatype error = UndefinedBehaviour | LengthError

text \<open>
  \<open>int(x)\<close> for a double \<open>x\<close> truncates towards zero; the behaviour is undefined
  when the truncated value is not representable in \<open>int\<close>.
\<close>

definition double_to_int :: "real \<Rightarrow> error + int" where
  "double_to_int x =
     (let z = (if 0 \<le> x then \<lfloor>x\<rfloor> else \<lceil>x\<rceil>)
      in if INT_MIN \<le> z \<and> z \<le> INT_MAX then Inr z else Inl UndefinedBehaviour)"

text \<open>\<open>std::min(a, b)\<close> is \<open>b < a ? b : a\<close> and \<open>std::max(a, b)\<close> is \<open>a < b ? b : a\<close>.\<close>

definition std_min :: "int \<Rightarrow> int \<Rightarrow> int" where
  "std_min a b = (if b < a then b else a)"

definition std_max :: "int \<Rightarrow> int \<Rightarrow> int" where
  "std_max a b = (if a < b then b else a)"

subsection \<open>SplineFit\<close>

text \<open>A \<open>datum\<close> is the column vector \<open>Matrix<double, N, 1>\<close>, a list of \<open>N\<close> numbers.\<close>

type_synonym datum = "real list"

record SplineFit =
  num :: "32 word"
  tblock :: real
  tstart :: real
  r :: "datum list"
  v :: "datum list"
  missing :: "bool list"

text \<open>
  The constructor initialises \<open>num\<close>, \<open>tblock\<close>, \<open>tstart\<close> and then the three vectors
  with \<open>num + 1\<close> elements each. The sum \<open>num + 1\<close> is an \<open>int\<close>: it overflows for
  \<open>num = INT_MAX\<close>. A negative \<open>num + 1\<close> converts to a \<open>size_t\<close> above the vector's
  \<open>max_size()\<close>, and the vector's constructor throws. The elements of \<open>missing\<close> are
  value-initialised to \<open>false\<close>. The default constructor of an Eigen fixed-size matrix
  leaves its coefficients indeterminate: \<open>ur k\<close> and \<open>uv k\<close> stand for whatever
  element \<open>k\<close> of \<open>r\<close> and of \<open>v\<close> holds after construction.
\<close>

definition SplineFit_ctor ::
  "(nat \<Rightarrow> datum) \<Rightarrow> (nat \<Rightarrow> datum) \<Rightarrow> 32 word \<Rightarrow> real \<Rightarrow> real \<Rightarrow> error + SplineFit" where
  "SplineFit_ctor ur uv num' tblock' tstart' =
     (if INT_MAX < sint num' + 1 then Inl UndefinedBehaviour
      else if sint num' + 1 < 0 then Inl LengthError
      else let n = nat (sint num' + 1)
           in Inr \<lparr>num = num', tblock = tblock', tstart = tstart',
                   r = map ur [0..<n], v = map uv [0..<n],
                   missing = replicate n False\<rparr>)"

text \<open>The default arguments: \<open>SplineFit(int _num = -1, double _tblock = 1, double _tstart = 0)\<close>.\<close>

definition SplineFit_default :: "(nat \<Rightarrow> datum) \<Rightarrow> (nat \<Rightarrow> datum) \<Rightarrow> error + SplineFit" where
  "SplineFit_default ur uv = SplineFit_ctor ur uv (- 1) 1 0"

text \<open>Indeterminate contents taken to be three zeros, for concrete runs.\<close>

definition zero_fill :: "nat \<Rightarrow> datum" where
  "zero_fill k = [0, 0, 0]"

text \<open>
  Rounding to double. An operation on doubles returns its exact result rounded to a
  double; \<open>rd\<close> stands for that rounding. Every half-integer \<open>n / 2\<close> with
  \<open>|n| \<le> 2^33\<close> is a double, so the rounding of the machine leaves it unchanged:
  \<open>fixes_half_integers\<close> says so of \<open>rd\<close>. \<open>no_rounding\<close> is exact arithmetic.
\<close>

definition fixes_half_integers :: "(real \<Rightarrow> real) \<Rightarrow> bool" where
  "fixes_half_integers rd \<longleftrightarrow>
     (\<forall>n::int. \<bar>n\<bar> \<le> 2 ^ 33 \<longrightarrow> rd (of_int n / 2) = of_int n / 2)"

definition no_rounding :: "real \<Rightarrow> real" where
  "no_rounding x = x"

text \<open>
  \<open>tconvert\<close>: convert time to index and fractional time. The difference
  \<open>t - tstart\<close>, the quotient by \<open>tblock\<close>, the sum \<open>i + 0.5\<close> and the final difference
  are each rounded; \<open>std::floor\<close> of a double is exact. The quotient is infinite or
  NaN when \<open>tblock\<close> is zero, and then the conversion to \<open>int\<close> is undefined; a
  quotient that overflows to infinity is likewise beyond every \<open>int\<close>. \<open>num - 1\<close> is
  undefined when it overflows.
\<close>

definition tconvert :: "(real \<Rightarrow> real) \<Rightarrow> SplineFit \<Rightarrow> real \<Rightarrow> error + (int \<times> real)" where
  "tconvert rd s t =
     (if tblock s = 0 then Inl UndefinedBehaviour
      else if sint (num s) - 1 < INT_MIN then Inl UndefinedBehaviour
      else case double_to_int (of_int \<lfloor>rd (rd (t - tstart s) / tblock s)\<rfloor>) of
             Inl e \<Rightarrow> Inl e
           | Inr raw \<Rightarrow>
               (let i = std_min (sint (num s) - 1) (std_max 0 raw);
                    tf = rd (rd (rd (t - tstart s) / tblock s) - rd (of_int i + 1 / 2))
                in Inr (i, tf)))"

subsection \<open>SplineFit::position\<close>

text \<open>
  The vectors of a trajectory as its constructor sizes them, \<open>num + 1\<close> nodes, each
  node holding \<open>N\<close> numbers.
\<close>

definition well_formed :: "nat \<Rightarrow> SplineFit \<Rightarrow> bool" where
  "well_formed N s \<longleftrightarrow>
     length (r s) = nat (sint (num s) + 1) \<and> length (v s) = nat (sint (num s) + 1)
     \<and> list_all (\<lambda>x. length x = N) (r s) \<and> list_all (\<lambda>x. length x = N) (v s)"

text \<open>
  Modelled from the spec: the bodies of the three overloads of \<open>SplineFit::position\<close>
  are missing from the sources; SplineFit.hpp (lines 80 to 82) only declares them.
  Section 4.5 of the specification: \<open>position(t)\<close> "delegate[s] to Block Index Mapper +
  Scalar Cubic Evaluator". The model takes the block \<open>i\<close> and the offset \<open>tf\<close> from
  \<open>tconvert\<close> and evaluates, in each of the \<open>N\<close> dimensions, EndPointCubic on the
  nodes \<open>i\<close> and \<open>i + 1\<close> at \<open>tf\<close>, with both output pointers null. Reading a node or
  a dimension that the vectors do not have is undefined.
\<close>

definition position :: "(real \<Rightarrow> real) \<Rightarrow> nat \<Rightarrow> SplineFit \<Rightarrow> real \<Rightarrow> error + datum" where
  "position rd N s t =
     (case tconvert rd s t of
        Inl e \<Rightarrow> Inl e
      | Inr (i, tf) \<Rightarrow>
          (let j = nat i
           in if 0 \<le> i \<and> Suc j < length (r s) \<and> Suc j < length (v s)
                 \<and> N \<le> length (r s ! j) \<and> N \<le> length (v s ! j)
                 \<and> N \<le> length (r s ! Suc j) \<and> N \<le> length (v s ! Suc j)
              then Inr (map (\<lambda>d. fst (EndPointCubic (r s ! j ! d) (v s ! j ! d)
                                         (r s ! Suc j ! d) (v s ! Suc j ! d) tf None None))
                          [0..<N])
              else Inl UndefinedBehaviour))"

subsection \<open>AccelJumpConstraint\<close>

text \<open>
  The constructors of the two functors divide by a power of \<open>tblock\<close>. For
  \<open>tblock = 0\<close> the C++ quotient is an IEEE infinity, which the reals do not have; the
  quotient of the model is then \<open>0\<close>, by the convention of HOL.
\<close>

record AccelJumpConstraint =
  accel_scale :: real

definition AccelJumpConstraint_ctor :: "real \<Rightarrow> AccelJumpConstraint" where
  "AccelJumpConstraint_ctor tblock' = \<lparr>accel_scale = 2 / (tblock' * tblock')\<rparr>"

text \<open>The loop \<open>for (int i = 0; i < N; ++i) residual[i] = ...\<close>, from index \<open>i\<close> on.\<close>

function AccelJump_loop ::
  "nat \<Rightarrow> real \<Rightarrow> real list \<Rightarrow> real list \<Rightarrow> real list \<Rightarrow> real list \<Rightarrow> real list
     \<Rightarrow> nat \<Rightarrow> real list \<Rightarrow> real list" where
  "AccelJump_loop N scale ra va vb rc vc i residual =
     (if i < N
      then AccelJump_loop N scale ra va vb rc vc (i + 1)
             (residual[i := scale * (3 * (rc ! i - ra ! i) - (vc ! i + va ! i) - 4 * vb ! i)])
      else residual)"
  by pat_completeness auto
termination
  by (relation "measure (\<lambda>(N, scale, ra, va, vb, rc, vc, i, residual). N - i)") auto

declare AccelJump_loop.simps [simp del]

text \<open>
  \<open>operator()\<close>: the arguments point to arrays of at least \<open>N\<close> numbers; reading or
  writing index \<open>i < N\<close> of a shorter array is undefined. The result is the returned
  flag and the residual array after the call.
\<close>

definition AccelJumpConstraint_call ::
  "nat \<Rightarrow> AccelJumpConstraint \<Rightarrow> real list \<Rightarrow> real list \<Rightarrow> real list \<Rightarrow> real list
     \<Rightarrow> real list \<Rightarrow> real list \<Rightarrow> error + (bool \<times> real list)" where
  "AccelJumpConstraint_call N c ra va vb rc vc residual =
     (if N \<le> length ra \<and> N \<le> length va \<and> N \<le> length vb \<and> N \<le> length rc
         \<and> N \<le> length vc \<and> N \<le> length residual
      then Inr (True, AccelJump_loop N (accel_scale c) ra va vb rc vc 0 residual)
      else Inl UndefinedBehaviour)"

subsection \<open>ClampConstraint\<close>

record ClampConstraint =
  clamp_scale :: real

definition ClampConstraint_ctor :: "real \<Rightarrow> ClampConstraint" where
  "ClampConstraint_ctor tblock' = \<lparr>clamp_scale = 1 / (tblock' * tblock' * tblock')\<rparr>"

function Clamp_loop ::
  "nat \<Rightarrow> real \<Rightarrow> real list \<Rightarrow> real list \<Rightarrow> real list \<Rightarrow> real list \<Rightarrow> real list
     \<Rightarrow> nat \<Rightarrow> real list \<Rightarrow> real list" where
  "Clamp_loop N scale ra va rb rc vc i residual =
     (if i < N
      then Clamp_loop N scale ra va rb rc vc (i + 1)
             (residual[i := scale * (4 * rb ! i - 2 * (rc ! i + ra ! i) + (vc ! i - va ! i))])
      else residual)"
  by pat_completeness auto
termination
  by (relation "measure (\<lambda>(N, scale, ra, va, rb, rc, vc, i, residual). N - i)") auto

declare Clamp_loop.simps [simp del]

definition ClampConstraint_call ::
  "nat \<Rightarrow> ClampConstraint \<Rightarrow> real list \<Rightarrow> real list \<Rightarrow> real list \<Rightarrow> real list
     \<Rightarrow> real list \<Rightarrow> real list \<Rightarrow> error + (bool \<times> real list)" where
  "ClampConstraint_call N c ra va rb rc vc residual =
     (if N \<le> length ra \<and> N \<le> length va \<and> N \<le> length rb \<and> N \<le> length rc
         \<and> N \<le> length vc \<and> N \<le> length residual
      then Inr (True, Clamp_loop N (clamp_scale c) ra va rb rc vc 0 residual)
      else Inl UndefinedBehaviour)"


subsection \<open>SplineFit::fillmissing\<close>

text \<open>
  Modelled from the spec: the nearest non-missing node before node \<open>i\<close> and the
  nearest one after it ("the nearest preceding and following non-missing nodes" of
  section 4.4 of the specification); the body of \<open>SplineFit::fillmissing\<close>, which
  would say how the source finds them, is missing from the sources.
\<close>

fun prev_known :: "bool list \<Rightarrow> nat \<Rightarrow> nat option" where
  "prev_known m 0 = None"
| "prev_known m (Suc i) = (if i < length m \<and> \<not> m ! i then Some i else prev_known m i)"

definition next_known :: "bool list \<Rightarrow> nat \<Rightarrow> nat option" where
  "next_known m i = find (\<lambda>k. \<not> m ! k) [Suc i..<length m]"

text \<open>
  Modelled from the spec: linear interpolation and extrapolation, for the missing body
  of \<open>SplineFit::fillmissing\<close>. \<open>on_line s j k i\<close> is the position and the velocity
  at node \<open>i\<close> on the straight line through the nodes \<open>j\<close> and \<open>k\<close>.
\<close>

definition lerp :: "datum \<Rightarrow> datum \<Rightarrow> real \<Rightarrow> datum" where
  "lerp x y w = map2 (\<lambda>a b. a + w * (b - a)) x y"

definition on_line :: "SplineFit \<Rightarrow> nat \<Rightarrow> nat \<Rightarrow> nat \<Rightarrow> datum \<times> datum" where
  "on_line s j k i =
     (let w = (real i - real j) / (real k - real j)
      in (lerp (r s ! j) (r s ! k) w, lerp (v s ! j) (v s ! k) w))"

text \<open>
  Modelled from the spec: what a node flagged missing receives, for the missing body of
  \<open>SplineFit::fillmissing\<close>. Section 4.4: "interpolation between the nearest
  preceding and following non-missing nodes (if both exist) or by linear extrapolation
  from the nearest run of known nodes (if the gap lies at a sequence end)". The
  specification does not say what a gap at an end receives when only one node is
  known: the model copies that node.
\<close>

definition fill_node :: "SplineFit \<Rightarrow> nat \<Rightarrow> datum \<times> datum" where
  "fill_node s i =
     (case (prev_known (missing s) i, next_known (missing s) i) of
        (Some j, Some k) \<Rightarrow> on_line s j k i
      | (None, Some k) \<Rightarrow>
          (case next_known (missing s) k of
             Some k' \<Rightarrow> on_line s k k' i
           | None \<Rightarrow> (r s ! k, v s ! k))
      | (Some j, None) \<Rightarrow>
          (case prev_known (missing s) j of
             Some j' \<Rightarrow> on_line s j' j i
           | None \<Rightarrow> (r s ! j, v s ! j))
      | (None, None) \<Rightarrow> (r s ! i, v s ! i))"

text \<open>
  Modelled from the spec: the body of \<open>SplineFit::fillmissing\<close> is missing from the
  sources; SplineFit.hpp only declares it, with the comment "Interpolate/extrapolate
  r/v entries indicated by clamp. This leaves missing vector untouched so that a clamp
  constraint can be put on interior missing nodes." The model follows section 4.4 of
  the specification: every node flagged missing is assigned a position and a velocity;
  the flag is never cleared; the call fails, as a reported and non-fatal condition,
  when no node is non-missing. The result is the returned flag and the object after the
  call. The specification does not say what the argument \<open>linearfit\<close> changes: the
  model fills in the same way for both of its values.
\<close>

definition fillmissing :: "bool \<Rightarrow> SplineFit \<Rightarrow> bool \<times> SplineFit" where
  "fillmissing linearfit s =
     (if list_all (\<lambda>b. b) (missing s) then (False, s)
      else (True,
            s\<lparr>r := map (\<lambda>i. if i < length (missing s) \<and> missing s ! i
                               then fst (fill_node s i) else r s ! i) [0..<length (r s)],
              v := map (\<lambda>i. if i < length (missing s) \<and> missing s ! i
                               then snd (fill_node s i) else v s ! i) [0..<length (v s)]\<rparr>))"

subsection \<open>Concrete trajectories\<close>

text \<open>The object that \<open>SplineFit(5, 1, 0)\<close> constructs, with zeros as stored vectors.\<close>

definition fit5 :: SplineFit where
  "fit5 = \<lparr>num = 5, tblock = 1, tstart = 0,
            r = map zero_fill [0..<6], v = map zero_fill [0..<6],
            missing = replicate 6 False\<rparr>"


text \<open>Four nodes in one dimension, the first and the second flagged missing.\<close>

definition gap3 :: SplineFit where
  "gap3 = \<lparr>num = 3, tblock = 1, tstart = 0,
            r = [[0], [0], [4], [6]], v = [[0], [0], [2], [2]],
            missing = [True, True, False, False]\<rparr>"

subsection \<open>Derivative jumps at a node\<close>

text \<open>
  Three consecutive nodes \<open>a\<close>, \<open>b\<close>, \<open>c\<close> carry two cubic segments: EndPointCubic on
  \<open>(a, b)\<close>, which reaches \<open>b\<close> at \<open>t = +1/2\<close>, and EndPointCubic on \<open>(b, c)\<close>, which
  leaves \<open>b\<close> at \<open>t = -1/2\<close>. One unit of the normalised time \<open>t\<close> is \<open>tblock\<close> units
  of absolute time, so a \<open>k\<close>-th derivative in absolute time is the normalised one
  divided by \<open>tblock ^ k\<close>. The jump is the value on the later segment minus the value
  on the earlier one.
\<close>

definition accel_jump ::
  "real \<Rightarrow> real \<Rightarrow> real \<Rightarrow> real \<Rightarrow> real \<Rightarrow> real \<Rightarrow> real \<Rightarrow> real" where
  "accel_jump tb ra' va' rb' vb' rc' vc' =
     cubic_acceleration rb' vb' rc' vc' (- (1 / 2)) / tb ^ 2
       - cubic_acceleration ra' va' rb' vb' (1 / 2) / tb ^ 2"

text \<open>
  The third derivative of the cubic with respect to \<open>t\<close> is the constant \<open>6 * a3\<close>
  (lemma \<open>cubic_jerk_is_derivative\<close> below shows that it is the derivative of the
  acceleration output).
\<close>

definition cubic_jerk :: "real \<Rightarrow> real \<Rightarrow> real \<Rightarrow> real \<Rightarrow> real" where
  "cubic_jerk rm vm rp vp = 6 * (- 2 * (rp - rm) + (vp + vm))"

definition jerk_jump ::
  "real \<Rightarrow> real \<Rightarrow> real \<Rightarrow> real \<Rightarrow> real \<Rightarrow> real \<Rightarrow> real \<Rightarrow> real" where
  "jerk_jump tb ra' va' rb' vb' rc' vc' =
     cubic_jerk rb' vb' rc' vc' / tb ^ 3 - cubic_jerk ra' va' rb' vb' / tb ^ 3"

text \<open>
  The piecewise cubic through \<open>a\<close>, \<open>b\<close>, \<open>c\<close> is twice continuously differentiable at
  \<open>b\<close> when value, first and second derivative of the two segments agree there.
\<close>

definition C2_at_node :: "real \<Rightarrow> real \<Rightarrow> real \<Rightarrow> real \<Rightarrow> real \<Rightarrow> real \<Rightarrow> bool" where
  "C2_at_node ra' va' rb' vb' rc' vc' =
     (cubic_position ra' va' rb' vb' (1 / 2) = cubic_position rb' vb' rc' vc' (- (1 / 2))
      \<and> cubic_velocity ra' va' rb' vb' (1 / 2) = cubic_velocity rb' vb' rc' vc' (- (1 / 2))
      \<and> cubic_acceleration ra' va' rb' vb' (1 / 2)
          = cubic_acceleration rb' vb' rc' vc' (- (1 / 2)))"

subsection \<open>Nodes sampled from a cubic polynomial\<close>

text \<open>
  A cubic polynomial in absolute time, given by its coefficients, one polynomial for
  each of the \<open>N\<close> dimensions. A node at time \<open>t\<close> holds the value of the polynomial
  as its position and, as its velocity, the derivative with respect to normalised time:
  \<open>tblock\<close> times the derivative with respect to absolute time.
\<close>

type_synonym poly3 = "real \<times> real \<times> real \<times> real"

fun poly3_eval :: "poly3 \<Rightarrow> real \<Rightarrow> real" where
  "poly3_eval (c0, c1, c2, c3) t = c0 + c1 * t + c2 * t ^ 2 + c3 * t ^ 3"

fun poly3_deriv :: "poly3 \<Rightarrow> real \<Rightarrow> real" where
  "poly3_deriv (c0, c1, c2, c3) t = c1 + 2 * c2 * t + 3 * c3 * t ^ 2"

definition node_position :: "poly3 list \<Rightarrow> real \<Rightarrow> datum" where
  "node_position p t = map (\<lambda>c. poly3_eval c t) p"

definition node_velocity :: "poly3 list \<Rightarrow> real \<Rightarrow> real \<Rightarrow> datum" where
  "node_velocity p tb t = map (\<lambda>c. tb * poly3_deriv c t) p"


section \<open>Properties\<close>

subsection \<open>The scalar cubic evaluator\<close>

text \<open>
  Claim C1. For all scalars \<open>rm\<close>, \<open>vm\<close>, \<open>rp\<close>, \<open>vp\<close>, \<open>t\<close> the function returns
  \<open>a0 + a1*t + a2*t^2 + a3*t^3\<close> with \<open>rs = rp+rm\<close>, \<open>rd = rp-rm\<close>, \<open>vs = vp+vm\<close>,
  \<open>vd = vp-vm\<close>, \<open>a0 = (4*rs-vd)/8\<close>, \<open>a1 = (6*rd-vs)/4\<close>, \<open>a2 = vd/2\<close>,
  \<open>a3 = -2*rd+vs\<close>; a supplied velocity cell receives \<open>a1 + 2*a2*t + 3*a3*t^2\<close>, a
  supplied acceleration cell receives \<open>2*a2 + 6*a3*t\<close>, and a null pointer stays null.
\<close>

theorem EndPointCubic_formula:
  "(let rs = rp + rm; rd = rp - rm; vs = vp + vm; vd = vp - vm;
        a0 = (4 * rs - vd) / 8; a1 = (6 * rd - vs) / 4; a2 = vd / 2;
        a3 = - 2 * rd + vs
    in EndPointCubic rm vm rp vp t pv pa =
         (a0 + a1 * t + a2 * t ^ 2 + a3 * t ^ 3,
          (case pv of None \<Rightarrow> None | Some _ \<Rightarrow> Some (a1 + 2 * a2 * t + 3 * a3 * t ^ 2)),
          (case pa of None \<Rightarrow> None | Some _ \<Rightarrow> Some (2 * a2 + 6 * a3 * t))))"
  unfolding EndPointCubic_def Let_def
  by (cases pv; cases pa) (simp_all add: algebra_simps power2_eq_square power3_eq_cube)

subsection \<open>The residual loops\<close>

lemma AccelJump_loop_length [simp]:
  "length (AccelJump_loop N s ra va vb rc vc i res) = length res"
  by (induction N s ra va vb rc vc i res rule: AccelJump_loop.induct)
     (subst AccelJump_loop.simps, simp)

lemma AccelJump_loop_nth:
  "j < length res \<Longrightarrow>
   AccelJump_loop N s ra va vb rc vc i res ! j =
     (if i \<le> j \<and> j < N
      then s * (3 * (rc ! j - ra ! j) - (vc ! j + va ! j) - 4 * vb ! j)
      else res ! j)"
proof (induction N s ra va vb rc vc i res rule: AccelJump_loop.induct)
  case (1 N s ra va vb rc vc i res)
  show ?case
  proof (cases "i < N")
    case True
    with 1 show ?thesis
      by (subst AccelJump_loop.simps) (cases "j = i"; simp add: nth_list_update)
  next
    case False
    then show ?thesis
      by (subst AccelJump_loop.simps) simp
  qed
qed

lemma Clamp_loop_length [simp]:
  "length (Clamp_loop N s ra va rb rc vc i res) = length res"
  by (induction N s ra va rb rc vc i res rule: Clamp_loop.induct)
     (subst Clamp_loop.simps, simp)

lemma Clamp_loop_nth:
  "j < length res \<Longrightarrow>
   Clamp_loop N s ra va rb rc vc i res ! j =
     (if i \<le> j \<and> j < N
      then s * (4 * rb ! j - 2 * (rc ! j + ra ! j) + (vc ! j - va ! j))
      else res ! j)"
proof (induction N s ra va rb rc vc i res rule: Clamp_loop.induct)
  case (1 N s ra va rb rc vc i res)
  show ?case
  proof (cases "i < N")
    case True
    with 1 show ?thesis
      by (subst Clamp_loop.simps) (cases "j = i"; simp add: nth_list_update)
  next
    case False
    then show ?thesis
      by (subst Clamp_loop.simps) simp
  qed
qed

subsection \<open>The outputs of the evaluator are successive derivatives\<close>

lemma cubic_position_eq:
  "cubic_position rm vm rp vp t =
     t * (t * (t * (- 2 * (rp - rm) + (vp + vm)) + (vp - vm) / 2)
            + (6 * (rp - rm) - (vp + vm)) / 4)
       + (4 * (rp + rm) - (vp - vm)) / 8"
  by (simp add: cubic_position_def EndPointCubic_def Let_def)

lemma cubic_velocity_eq:
  "cubic_velocity rm vm rp vp t =
     t * (t * 3 * (- 2 * (rp - rm) + (vp + vm)) + (vp - vm))
       + (6 * (rp - rm) - (vp + vm)) / 4"
  by (simp add: cubic_velocity_def EndPointCubic_def Let_def)

lemma cubic_acceleration_eq:
  "cubic_acceleration rm vm rp vp t =
     t * 6 * (- 2 * (rp - rm) + (vp + vm)) + (vp - vm)"
  by (simp add: cubic_acceleration_def EndPointCubic_def Let_def)

lemma cubic_velocity_is_derivative:
  "((\<lambda>t. cubic_position rm vm rp vp t) has_real_derivative cubic_velocity rm vm rp vp t) (at t)"
  unfolding cubic_position_eq cubic_velocity_eq
  by (rule derivative_eq_intros refl | simp add: field_simps)+

lemma cubic_acceleration_is_derivative:
  "((\<lambda>t. cubic_velocity rm vm rp vp t) has_real_derivative cubic_acceleration rm vm rp vp t) (at t)"
  unfolding cubic_velocity_eq cubic_acceleration_eq
  by (rule derivative_eq_intros refl | simp add: field_simps)+

lemma cubic_jerk_is_derivative:
  "((\<lambda>t. cubic_acceleration rm vm rp vp t) has_real_derivative cubic_jerk rm vm rp vp) (at t)"
  unfolding cubic_acceleration_eq cubic_jerk_def
  by (rule derivative_eq_intros refl | simp add: field_simps)+

lemma poly3_deriv_is_derivative:
  "((\<lambda>t. poly3_eval c t) has_real_derivative poly3_deriv c t) (at t)"
  by (cases c) (auto intro!: derivative_eq_intros simp: field_simps power2_eq_square)

lemma accel_jump_eq:
  "accel_jump tb ra' va' rb' vb' rc' vc' =
     2 / (tb * tb) * (3 * (rc' - ra') - (vc' + va') - 4 * vb')"
proof -
  have "accel_jump tb ra' va' rb' vb' rc' vc' =
          (cubic_acceleration rb' vb' rc' vc' (- (1 / 2))
             - cubic_acceleration ra' va' rb' vb' (1 / 2)) / (tb * tb)"
    by (simp add: accel_jump_def diff_divide_distrib power2_eq_square)
  also have "cubic_acceleration rb' vb' rc' vc' (- (1 / 2))
               - cubic_acceleration ra' va' rb' vb' (1 / 2)
             = 2 * (3 * (rc' - ra') - (vc' + va') - 4 * vb')"
    by (simp add: cubic_acceleration_eq algebra_simps)
  finally show ?thesis
    by simp
qed

lemma jerk_jump_eq:
  "jerk_jump tb ra' va' rb' vb' rc' vc' =
     6 * (1 / (tb * tb * tb) * (4 * rb' - 2 * (rc' + ra') + (vc' - va')))"
proof -
  have "jerk_jump tb ra' va' rb' vb' rc' vc' =
          (cubic_jerk rb' vb' rc' vc' - cubic_jerk ra' va' rb' vb') / (tb * tb * tb)"
    by (simp add: jerk_jump_def diff_divide_distrib power3_eq_cube)
  also have "cubic_jerk rb' vb' rc' vc' - cubic_jerk ra' va' rb' vb'
             = 6 * (4 * rb' - 2 * (rc' + ra') + (vc' - va'))"
    by (simp add: cubic_jerk_def algebra_simps)
  finally show ?thesis
    by simp
qed

lemma C2_at_node_iff:
  "C2_at_node ra' va' rb' vb' rc' vc' \<longleftrightarrow> 3 * (rc' - ra') - (vc' + va') - 4 * vb' = 0"
  unfolding C2_at_node_def cubic_position_eq cubic_velocity_eq cubic_acceleration_eq
  by (auto simp: field_simps)

subsection \<open>The constraint functors\<close>

lemma AccelJumpConstraint_call_eq:
  assumes "N \<le> length ra" "N \<le> length va" "N \<le> length vb" "N \<le> length rc"
    "N \<le> length vc" "N \<le> length res0"
  shows "AccelJumpConstraint_call N c ra va vb rc vc res0 =
           Inr (True, AccelJump_loop N (accel_scale c) ra va vb rc vc 0 res0)"
  using assms by (simp add: AccelJumpConstraint_call_def)

lemma AccelJump_loop_component:
  assumes "i < N" "N \<le> length res0"
  shows "AccelJump_loop N s ra va vb rc vc 0 res0 ! i =
           s * (3 * (rc ! i - ra ! i) - (vc ! i + va ! i) - 4 * vb ! i)"
  using assms by (simp add: AccelJump_loop_nth)

lemma ClampConstraint_call_eq:
  assumes "N \<le> length ra" "N \<le> length va" "N \<le> length rb" "N \<le> length rc"
    "N \<le> length vc" "N \<le> length res0"
  shows "ClampConstraint_call N c ra va rb rc vc res0 =
           Inr (True, Clamp_loop N (clamp_scale c) ra va rb rc vc 0 res0)"
  using assms by (simp add: ClampConstraint_call_def)

lemma Clamp_loop_component:
  assumes "i < N" "N \<le> length res0"
  shows "Clamp_loop N s ra va rb rc vc 0 res0 ! i =
           s * (4 * rb ! i - 2 * (rc ! i + ra ! i) + (vc ! i - va ! i))"
  using assms by (simp add: Clamp_loop_nth)

text \<open>
  Claim C5. An AccelJumpConstraint constructed with \<open>tblock\<close> has
  \<open>scale = 2 / tblock^2\<close>, and its \<open>operator()\<close> returns true and sets
  \<open>residual[i] = scale * (3*(rc[i]-ra[i]) - (vc[i]+va[i]) - 4*vb[i])\<close> for each of the
  \<open>N\<close> dimensions \<open>i\<close>, with the same scale in every dimension. The arrays hold at
  least \<open>N\<close> numbers.
\<close>

theorem AccelJumpConstraint_residual:
  assumes "N \<le> length ra" "N \<le> length va" "N \<le> length vb" "N \<le> length rc"
    "N \<le> length vc" "N \<le> length res0"
  shows "accel_scale (AccelJumpConstraint_ctor tb) = 2 / tb ^ 2
    \<and> (\<exists>res. AccelJumpConstraint_call N (AccelJumpConstraint_ctor tb) ra va vb rc vc res0
                = Inr (True, res)
          \<and> length res = length res0
          \<and> (\<forall>i<N. res ! i =
                2 / tb ^ 2 * (3 * (rc ! i - ra ! i) - (vc ! i + va ! i) - 4 * vb ! i)))"
proof -
  have scale: "accel_scale (AccelJumpConstraint_ctor tb) = 2 / tb ^ 2"
    by (simp add: AccelJumpConstraint_ctor_def power2_eq_square)
  let ?res = "AccelJump_loop N (2 / tb ^ 2) ra va vb rc vc 0 res0"
  have "AccelJumpConstraint_call N (AccelJumpConstraint_ctor tb) ra va vb rc vc res0
          = Inr (True, ?res)"
    using assms by (simp add: AccelJumpConstraint_call_eq scale)
  moreover have "length ?res = length res0"
    by simp
  moreover have "\<forall>i<N. ?res ! i =
      2 / tb ^ 2 * (3 * (rc ! i - ra ! i) - (vc ! i + va ! i) - 4 * vb ! i)"
    using assms(6) by (simp add: AccelJump_loop_component)
  ultimately show ?thesis
    using scale by blast
qed

theorem AccelJumpConstraint_residual_witness:
  "\<exists>res. AccelJumpConstraint_call 3 (AccelJumpConstraint_ctor 2)
            [1, 2, 3] [1, 0, 0] [0, 1, 0] [2, 4, 6] [1, 1, 1] [9, 9, 9] = Inr (True, res)
         \<and> res ! 0 = 1 / 2 \<and> res ! 1 = 1 / 2 \<and> res ! 2 = 4"
  using AccelJumpConstraint_residual
          [of 3 "[1, 2, 3]" "[1, 0, 0]" "[0, 1, 0]" "[2, 4, 6]" "[1, 1, 1]" "[9, 9, 9]" 2]
  by (auto simp: numeral_3_eq_3 numeral_2_eq_2 All_less_Suc)

text \<open>
  Claim C6. A ClampConstraint constructed with \<open>tblock\<close> has \<open>scale = 1 / tblock^3\<close>,
  and its \<open>operator()\<close> returns true and sets
  \<open>residual[i] = scale * (4*rb[i] - 2*(rc[i]+ra[i]) + (vc[i]-va[i]))\<close> for each of the
  \<open>N\<close> dimensions \<open>i\<close>. Component \<open>i\<close> is zero exactly when the jump of the third
  derivative between the segment \<open>(a, b)\<close> and the segment \<open>(b, c)\<close> is zero; for
  \<open>tblock \<noteq> 0\<close> that is when the two segments have the same third derivative,
  whatever the velocity at \<open>b\<close>.
\<close>

theorem ClampConstraint_residual:
  assumes "N \<le> length ra" "N \<le> length va" "N \<le> length rb" "N \<le> length rc"
    "N \<le> length vc" "N \<le> length res0"
  shows "clamp_scale (ClampConstraint_ctor tb) = 1 / tb ^ 3
    \<and> (\<exists>res. ClampConstraint_call N (ClampConstraint_ctor tb) ra va rb rc vc res0
                = Inr (True, res)
          \<and> length res = length res0
          \<and> (\<forall>i<N. res ! i =
                1 / tb ^ 3 * (4 * rb ! i - 2 * (rc ! i + ra ! i) + (vc ! i - va ! i)))
          \<and> (\<forall>i<N. res ! i = 0 \<longleftrightarrow>
                jerk_jump tb (ra ! i) (va ! i) (rb ! i) (vb ! i) (rc ! i) (vc ! i) = 0)
          \<and> (tb \<noteq> 0 \<longrightarrow>
               (\<forall>i<N. res ! i = 0 \<longleftrightarrow>
                  cubic_jerk (rb ! i) (vb ! i) (rc ! i) (vc ! i)
                    = cubic_jerk (ra ! i) (va ! i) (rb ! i) (vb ! i))))"
proof -
  have scale: "clamp_scale (ClampConstraint_ctor tb) = 1 / tb ^ 3"
    by (simp add: ClampConstraint_ctor_def power3_eq_cube)
  let ?res = "Clamp_loop N (1 / tb ^ 3) ra va rb rc vc 0 res0"
  have call: "ClampConstraint_call N (ClampConstraint_ctor tb) ra va rb rc vc res0
          = Inr (True, ?res)"
    using assms by (simp add: ClampConstraint_call_eq scale)
  have len: "length ?res = length res0"
    by simp
  have comp: "?res ! i =
      1 / tb ^ 3 * (4 * rb ! i - 2 * (rc ! i + ra ! i) + (vc ! i - va ! i))" if "i < N" for i
    using that assms(6) by (simp add: Clamp_loop_component)
  have jump: "jerk_jump tb (ra ! i) (va ! i) (rb ! i) (vb ! i) (rc ! i) (vc ! i) = 6 * ?res ! i"
    if "i < N" for i
    using comp [OF that] by (simp add: jerk_jump_eq power3_eq_cube)
  have zero: "?res ! i = 0 \<longleftrightarrow>
      jerk_jump tb (ra ! i) (va ! i) (rb ! i) (vb ! i) (rc ! i) (vc ! i) = 0" if "i < N" for i
    using jump [OF that] by simp
  have same: "?res ! i = 0 \<longleftrightarrow>
      cubic_jerk (rb ! i) (vb ! i) (rc ! i) (vc ! i)
        = cubic_jerk (ra ! i) (va ! i) (rb ! i) (vb ! i)" if "i < N" "tb \<noteq> 0" for i
    using zero [OF that(1)] that(2) by (simp add: jerk_jump_def diff_divide_distrib [symmetric])
  show ?thesis
    using scale call len comp zero same by blast
qed

theorem ClampConstraint_residual_witness:
  "\<exists>res. ClampConstraint_call 2 (ClampConstraint_ctor 2)
            [1, 0] [1, 2] [2, 1] [3, 5] [1, 4] [7, 7] = Inr (True, res)
         \<and> res ! 0 = 0 \<and> res ! 1 = - (1 / 2)
         \<and> cubic_jerk 2 5 3 1 = cubic_jerk 1 1 2 5
         \<and> cubic_jerk 1 0 5 4 \<noteq> cubic_jerk 0 2 1 0"
  using ClampConstraint_residual
          [of 2 "[1, 0]" "[1, 2]" "[2, 1]" "[3, 5]" "[1, 4]" "[7, 7]" 2 "[5, 0]"]
  by (auto simp: numeral_2_eq_2 All_less_Suc)

text \<open>
  Claim C3. For \<open>tblock > 0\<close>, component \<open>i\<close> of the residual of AccelJumpConstraint
  is the jump, at the shared node \<open>b\<close>, of the second derivative in absolute time
  between EndPointCubic on \<open>(a, b)\<close> at \<open>t = +1/2\<close> and EndPointCubic on \<open>(b, c)\<close> at
  \<open>t = -1/2\<close>, whatever the position at \<open>b\<close>. Hence all \<open>N\<close> components are zero
  if and only if the piecewise cubic is twice continuously differentiable at \<open>b\<close> in
  every dimension.
\<close>

theorem AccelJumpConstraint_is_acceleration_jump:
  assumes "0 < tb"
    and "N \<le> length ra" "N \<le> length va" "N \<le> length rb" "N \<le> length vb"
      "N \<le> length rc" "N \<le> length vc" "N \<le> length res0"
  shows "\<exists>res. AccelJumpConstraint_call N (AccelJumpConstraint_ctor tb) ra va vb rc vc res0
                = Inr (True, res)
          \<and> (\<forall>i<N. res ! i =
                accel_jump tb (ra ! i) (va ! i) (rb ! i) (vb ! i) (rc ! i) (vc ! i))
          \<and> ((\<forall>i<N. res ! i = 0) \<longleftrightarrow>
               (\<forall>i<N. C2_at_node (ra ! i) (va ! i) (rb ! i) (vb ! i) (rc ! i) (vc ! i)))"
proof -
  let ?s = "accel_scale (AccelJumpConstraint_ctor tb)"
  let ?res = "AccelJump_loop N ?s ra va vb rc vc 0 res0"
  have scale: "?s = 2 / (tb * tb)"
    by (simp add: AccelJumpConstraint_ctor_def)
  have call: "AccelJumpConstraint_call N (AccelJumpConstraint_ctor tb) ra va vb rc vc res0
          = Inr (True, ?res)"
    using assms by (simp add: AccelJumpConstraint_call_eq)
  have comp: "?res ! i = ?s * (3 * (rc ! i - ra ! i) - (vc ! i + va ! i) - 4 * vb ! i)"
    if "i < N" for i
    using that assms(8) by (simp add: AccelJump_loop_component)
  have jump: "?res ! i = accel_jump tb (ra ! i) (va ! i) (rb ! i) (vb ! i) (rc ! i) (vc ! i)"
    if "i < N" for i
    using comp [OF that] by (simp add: accel_jump_eq scale)
  have nz: "?s \<noteq> 0"
    using assms(1) by (simp add: scale)
  have zero: "?res ! i = 0 \<longleftrightarrow>
      C2_at_node (ra ! i) (va ! i) (rb ! i) (vb ! i) (rc ! i) (vc ! i)" if "i < N" for i
    unfolding C2_at_node_iff comp [OF that] using nz by simp
  show ?thesis
    using call jump zero by blast
qed

theorem AccelJumpConstraint_is_acceleration_jump_witness:
  "\<exists>res. AccelJumpConstraint_call 2 (AccelJumpConstraint_ctor 2)
            [0, 0] [1, 1] [1, 2] [2, 4] [1, 3] [0, 0] = Inr (True, res)
         \<and> res ! 0 = accel_jump 2 0 1 1 1 2 1
         \<and> res ! 1 = accel_jump 2 0 1 2 2 4 3"
  using AccelJumpConstraint_is_acceleration_jump
          [of 2 2 "[0, 0]" "[1, 1]" "[1, 2]" "[1, 2]" "[2, 4]" "[1, 3]" "[0, 0]"]
  by (auto simp: numeral_2_eq_2 All_less_Suc)

subsection \<open>Nodes sampled from a cubic\<close>

lemma sampled_accel_zero:
  "3 * (poly3_eval c (t + h) - poly3_eval c (t - h))
     - (h * poly3_deriv c (t + h) + h * poly3_deriv c (t - h))
     - 4 * (h * poly3_deriv c t) = 0"
  by (cases c) (simp add: algebra_simps power2_eq_square power3_eq_cube)

lemma sampled_clamp_zero:
  "4 * poly3_eval c t - 2 * (poly3_eval c (t + h) + poly3_eval c (t - h))
     + (h * poly3_deriv c (t + h) - h * poly3_deriv c (t - h)) = 0"
  by (cases c) (simp add: algebra_simps power2_eq_square power3_eq_cube)

text \<open>
  Claim C7. Let \<open>p\<close> be a cubic polynomial in each of the \<open>N\<close> dimensions, \<open>tblock > 0\<close>,
  and let the nodes \<open>a\<close>, \<open>b\<close>, \<open>c\<close> lie at the times \<open>t - tblock\<close>, \<open>t\<close>, \<open>t + tblock\<close>,
  with positions the values of \<open>p\<close> and velocities the derivative of \<open>p\<close> in
  normalised time. Then every component of the AccelJumpConstraint residual and every
  component of the ClampConstraint residual on these nodes is zero.
\<close>

theorem sampled_cubic_zero_residuals:
  assumes "0 < tb" and "length p = N" and "N \<le> length res0"
  shows "(\<exists>res. AccelJumpConstraint_call N (AccelJumpConstraint_ctor tb)
                  (node_position p (t - tb)) (node_velocity p tb (t - tb))
                  (node_velocity p tb t)
                  (node_position p (t + tb)) (node_velocity p tb (t + tb)) res0
                = Inr (True, res)
            \<and> (\<forall>i<N. res ! i = 0))
       \<and> (\<exists>res. ClampConstraint_call N (ClampConstraint_ctor tb)
                  (node_position p (t - tb)) (node_velocity p tb (t - tb))
                  (node_position p t)
                  (node_position p (t + tb)) (node_velocity p tb (t + tb)) res0
                = Inr (True, res)
            \<and> (\<forall>i<N. res ! i = 0))"
proof -
  let ?ra = "node_position p (t - tb)" and ?va = "node_velocity p tb (t - tb)"
  let ?rb = "node_position p t" and ?vb = "node_velocity p tb t"
  let ?rc = "node_position p (t + tb)" and ?vc = "node_velocity p tb (t + tb)"
  have len: "length ?ra = N" "length ?va = N" "length ?rb = N" "length ?vb = N"
    "length ?rc = N" "length ?vc = N"
    using assms(2) by (simp_all add: node_position_def node_velocity_def)
  let ?A = "AccelJump_loop N (accel_scale (AccelJumpConstraint_ctor tb)) ?ra ?va ?vb ?rc ?vc 0 res0"
  let ?C = "Clamp_loop N (clamp_scale (ClampConstraint_ctor tb)) ?ra ?va ?rb ?rc ?vc 0 res0"
  have callA: "AccelJumpConstraint_call N (AccelJumpConstraint_ctor tb) ?ra ?va ?vb ?rc ?vc res0
                 = Inr (True, ?A)"
    using len assms(3) by (simp add: AccelJumpConstraint_call_eq)
  have callC: "ClampConstraint_call N (ClampConstraint_ctor tb) ?ra ?va ?rb ?rc ?vc res0
                 = Inr (True, ?C)"
    using len assms(3) by (simp add: ClampConstraint_call_eq)
  have zeroA: "?A ! i = 0" if "i < N" for i
  proof -
    have "i < length p"
      using that assms(2) by simp
    then show ?thesis
      using that assms(3) sampled_accel_zero [of "p ! i" t tb]
      by (simp add: AccelJump_loop_component node_position_def node_velocity_def)
  qed
  have zeroC: "?C ! i = 0" if "i < N" for i
  proof -
    have "i < length p"
      using that assms(2) by simp
    then show ?thesis
      using that assms(3) sampled_clamp_zero [of "p ! i" t tb]
      by (simp add: Clamp_loop_component node_position_def node_velocity_def)
  qed
  show ?thesis
    using callA callC zeroA zeroC by blast
qed

theorem sampled_cubic_zero_residuals_witness:
  "(\<exists>res. AccelJumpConstraint_call 2 (AccelJumpConstraint_ctor 2)
            [- 1, - 2] [6, 16] [6, 40] [27, 142] [54, 256] [5, 5] = Inr (True, res)
         \<and> res ! 0 = 0 \<and> res ! 1 = 0)
   \<and> (\<exists>res. ClampConstraint_call 2 (ClampConstraint_ctor 2)
            [- 1, - 2] [6, 16] [1, 10] [27, 142] [54, 256] [5, 5] = Inr (True, res)
         \<and> res ! 0 = 0 \<and> res ! 1 = 0)"
proof -
  have h: "0 < (2::real)" "length [(0, 0, 0, 1), (1, 2, 3, 4 :: real)] = 2"
    "2 \<le> length [5, 5 :: real]"
    by simp_all
  have pos: "node_position [(0, 0, 0, 1), (1, 2, 3, 4)] (- 1) = [- 1, - 2]"
    "node_position [(0, 0, 0, 1), (1, 2, 3, 4)] 1 = [1, 10]"
    "node_position [(0, 0, 0, 1), (1, 2, 3, 4)] 3 = [27, 142]"
    by (simp_all add: node_position_def)
  have vel: "node_velocity [(0, 0, 0, 1), (1, 2, 3, 4)] 2 (- 1) = [6, 16]"
    "node_velocity [(0, 0, 0, 1), (1, 2, 3, 4)] 2 1 = [6, 40]"
    "node_velocity [(0, 0, 0, 1), (1, 2, 3, 4)] 2 3 = [54, 256]"
    by (simp_all add: node_velocity_def)
  show ?thesis
    using sampled_cubic_zero_residuals [OF h, of 1] pos vel
    by (auto simp: numeral_2_eq_2 All_less_Suc)
qed

subsection \<open>The block index mapper\<close>

lemma std_min_eq_min: "std_min a b = min a b"
  by (simp add: std_min_def min_def)

lemma std_max_eq_max: "std_max a b = max a b"
  by (simp add: std_max_def max_def)

lemma double_to_int_of_int:
  "double_to_int (of_int z) = (if INT_MIN \<le> z \<and> z \<le> INT_MAX then Inr z else Inl UndefinedBehaviour)"
  by (simp add: double_to_int_def)

lemma sint_32_range: "INT_MIN \<le> sint (n :: 32 word) \<and> sint n \<le> INT_MAX"
  using sint_ge [of n] sint_lt [of n] by (simp add: INT_MIN_def INT_MAX_def)

lemma fixes_value:
  assumes "fixes_half_integers rd" and "x = of_int n / 2" and "\<bar>n\<bar> \<le> 2 ^ 33"
  shows "rd x = x"
  using assms unfolding fixes_half_integers_def by blast

lemma fixes_int_plus_half:
  assumes "fixes_half_integers rd" and "\<bar>n\<bar> < 2 ^ 32"
  shows "rd (of_int n + 1 / 2) = of_int n + 1 / 2"
proof (rule fixes_value [OF assms(1), of _ "2 * n + 1"])
  show "of_int n + 1 / 2 = (of_int (2 * n + 1) / 2 :: real)"
    by (simp add: add_divide_distrib)
  show "\<bar>2 * n + 1\<bar> \<le> 2 ^ 33"
    using assms(2) by simp
qed

lemma no_rounding_fixes: "fixes_half_integers no_rounding"
  by (simp add: fixes_half_integers_def no_rounding_def)

text \<open>
  When the raw index, the floor of the rounded quotient, is representable as an \<open>int\<close>,
  \<open>tconvert\<close> returns the clamped index and the rounded offset.
\<close>

lemma tconvert_in_range:
  assumes "tblock s \<noteq> 0" and "INT_MIN < sint (num s)"
    and "INT_MIN \<le> \<lfloor>rd (rd (t - tstart s) / tblock s)\<rfloor>"
    and "\<lfloor>rd (rd (t - tstart s) / tblock s)\<rfloor> \<le> INT_MAX"
  shows "tconvert rd s t =
           Inr (min (sint (num s) - 1) (max 0 \<lfloor>rd (rd (t - tstart s) / tblock s)\<rfloor>),
                rd (rd (rd (t - tstart s) / tblock s)
                     - rd (of_int (min (sint (num s) - 1)
                                    (max 0 \<lfloor>rd (rd (t - tstart s) / tblock s)\<rfloor>)) + 1 / 2)))"
  using assms
  by (simp add: tconvert_def double_to_int_of_int std_min_eq_min std_max_eq_max Let_def)

lemma tconvert_index_bounds:
  assumes "tconvert rd s t = Inr (i, tf)" and "1 \<le> sint (num s)"
  shows "0 \<le> i \<and> i \<le> sint (num s) - 1"
  using assms
  by (auto simp: tconvert_def std_min_eq_min std_max_eq_max Let_def
        split: if_splits sum.splits)

text \<open>
  A time is the time of node \<open>k\<close> when the quotient that \<open>tconvert\<close> computes is
  exactly \<open>k\<close>. For \<open>k < num\<close> it is the start of block \<open>k\<close>, offset \<open>-1/2\<close>; the time
  of the last node is the end of the last block, offset \<open>+1/2\<close>.
\<close>

lemma tconvert_node_time:
  assumes "fixes_half_integers rd" and "tblock s \<noteq> 0" and "0 \<le> k" and "k < sint (num s)"
    and "rd (rd (t - tstart s) / tblock s) = of_int k"
  shows "tconvert rd s t = Inr (k, - (1 / 2))"
proof -
  have range: "INT_MIN < sint (num s)" "INT_MIN \<le> k" "k \<le> INT_MAX"
    using assms(3,4) sint_32_range [of "num s"] by (simp_all add: INT_MIN_def)
  have fl: "\<lfloor>rd (rd (t - tstart s) / tblock s)\<rfloor> = k"
    unfolding assms(5) by simp
  have i: "min (sint (num s) - 1) (max 0 k) = k"
    using assms(3,4) by simp
  have "\<bar>k\<bar> < 2 ^ 32"
    using assms(3) range(3) by (simp add: INT_MAX_def)
  then have half: "rd (of_int k + 1 / 2) = of_int k + 1 / 2"
    using assms(1) by (rule fixes_int_plus_half [rotated])
  have tf: "rd (- (1 / 2)) = - (1 / 2)"
    by (rule fixes_value [OF assms(1), of _ "- 1"]) simp_all
  have "tconvert rd s t =
          Inr (min (sint (num s) - 1) (max 0 \<lfloor>rd (rd (t - tstart s) / tblock s)\<rfloor>),
               rd (rd (rd (t - tstart s) / tblock s)
                    - rd (of_int (min (sint (num s) - 1)
                                   (max 0 \<lfloor>rd (rd (t - tstart s) / tblock s)\<rfloor>)) + 1 / 2)))"
    by (rule tconvert_in_range) (use assms(2) range in \<open>simp_all add: fl\<close>)
  then show ?thesis
    by (simp add: fl i half tf assms(5))
qed


text \<open>
  The examples of the specification, \<open>tblock = 1\<close>, \<open>tstart = 0\<close>, \<open>num = 5\<close>:
  \<open>tconvert (-10)\<close> is clamped to index \<open>0\<close>, and \<open>tconvert 2.5\<close> has index \<open>2\<close> and
  offset \<open>0\<close>.
\<close>

lemma tconvert_fit5:
  "tconvert rd fit5 t =
     (case double_to_int (of_int \<lfloor>rd (rd t)\<rfloor>) of
        Inl e \<Rightarrow> Inl e
      | Inr raw \<Rightarrow>
          Inr (min 4 (max 0 raw), rd (rd (rd t) - rd (of_int (min 4 (max 0 raw)) + 1 / 2))))"
  by (simp add: tconvert_def fit5_def INT_MIN_def std_min_eq_min std_max_eq_max Let_def
        split: sum.split)

lemma tconvert_examples:
  assumes "fixes_half_integers rd"
  shows "tconvert rd fit5 (- 10) = Inr (0, - (21 / 2))"
    and "tconvert rd fit5 (5 / 2) = Inr (2, 0)"
proof -
  have f1: "rd (- 10) = - 10"
    by (rule fixes_value [OF assms, of _ "- 20"]) simp_all
  have f2: "rd (1 / 2) = 1 / 2"
    by (rule fixes_value [OF assms, of _ 1]) simp_all
  have f3: "rd (- (21 / 2)) = - (21 / 2)"
    by (rule fixes_value [OF assms, of _ "- 21"]) simp_all
  have f4: "rd (5 / 2) = 5 / 2"
    by (rule fixes_value [OF assms, of _ 5]) simp_all
  have f5: "rd 0 = 0"
    by (rule fixes_value [OF assms, of _ 0]) simp_all
  note keep = f1 f2 f3 f4 f5
  show "tconvert rd fit5 (- 10) = Inr (0, - (21 / 2))"
    by (simp add: tconvert_fit5 keep double_to_int_def INT_MIN_def INT_MAX_def)
  show "tconvert rd fit5 (5 / 2) = Inr (2, 0)"
    by (simp add: tconvert_fit5 keep double_to_int_def INT_MIN_def INT_MAX_def)
qed

text \<open>
  Claim C2. The claim promises, for every time \<open>t\<close>, the index
  \<open>min (num - 1) (max 0 (floor ((t - tstart) / tblock)))\<close> and no error. The source
  clamps a time beyond the last block, as for \<open>tblock = 1\<close>, \<open>tstart = 0\<close>, \<open>num = 5\<close>
  and \<open>t = 100\<close>, which has index \<open>4\<close>; but it converts the floor of the quotient to
  \<open>int\<close> before it clamps, and for \<open>t = 2^31\<close> that conversion is undefined, where
  the claim says index \<open>4\<close>.
\<close>

theorem tconvert_huge_time_undefined:
  assumes "fixes_half_integers rd"
  shows "tconvert rd fit5 100 = Inr (4, 191 / 2)
       \<and> tconvert rd fit5 2147483648 = Inl UndefinedBehaviour"
proof -
  have f1: "rd 100 = 100"
    by (rule fixes_value [OF assms, of _ 200]) simp_all
  have f2: "rd (9 / 2) = 9 / 2"
    by (rule fixes_value [OF assms, of _ 9]) simp_all
  have f3: "rd (191 / 2) = 191 / 2"
    by (rule fixes_value [OF assms, of _ 191]) simp_all
  have f4: "rd 2147483648 = 2147483648"
    by (rule fixes_value [OF assms, of _ 4294967296]) simp_all
  note keep = f1 f2 f3 f4
  have "tconvert rd fit5 100 = Inr (4, 191 / 2)"
    by (simp add: tconvert_fit5 keep double_to_int_def INT_MIN_def INT_MAX_def)
  moreover have "tconvert rd fit5 2147483648 = Inl UndefinedBehaviour"
    by (simp add: tconvert_fit5 keep double_to_int_def INT_MIN_def INT_MAX_def)
  ultimately show ?thesis
    by simp
qed

theorem tconvert_huge_time_undefined_witness:
  "tconvert no_rounding fit5 100 = Inr (4, 191 / 2)
   \<and> tconvert no_rounding fit5 2147483648 = Inl UndefinedBehaviour"
  using tconvert_huge_time_undefined [OF no_rounding_fixes]
  by simp

subsection \<open>Querying at node times\<close>

lemma EndPointCubic_at_ends:
  "fst (EndPointCubic rm vm rp vp (- (1 / 2)) pv pa) = rm"
  "fst (EndPointCubic rm vm rp vp (1 / 2) pv pa) = rp"
  unfolding EndPointCubic_def Let_def
  by (simp_all add: field_simps)

lemma well_formed_nth:
  assumes "well_formed N s" and "j < nat (sint (num s) + 1)"
  shows "j < length (r s)" "j < length (v s)" "length (r s ! j) = N" "length (v s ! j) = N"
  using assms by (simp_all add: well_formed_def list_all_length)

lemma position_node_time:
  assumes "fixes_half_integers rd" and "well_formed N s" and "tblock s \<noteq> 0"
    and "0 \<le> k" and "k < sint (num s)"
    and "rd (rd (t - tstart s) / tblock s) = of_int k"
  shows "position rd N s t = Inr (r s ! nat k)"
proof -
  have tc: "tconvert rd s t = Inr (k, - (1 / 2))"
    using assms(1,3-6) by (rule tconvert_node_time)
  have j: "nat k < nat (sint (num s) + 1)" "Suc (nat k) < nat (sint (num s) + 1)"
    using assms(4,5) by simp_all
  note wf = well_formed_nth [OF assms(2) j(1)] well_formed_nth [OF assms(2) j(2)]
  have "map (\<lambda>d. fst (EndPointCubic (r s ! nat k ! d) (v s ! nat k ! d)
                        (r s ! Suc (nat k) ! d) (v s ! Suc (nat k) ! d) (- (1 / 2)) None None))
          [0..<N] = map (\<lambda>d. r s ! nat k ! d) [0..<N]"
    by (simp add: EndPointCubic_at_ends)
  also have "\<dots> = r s ! nat k"
    using wf(3) map_nth [of "r s ! nat k"] by simp
  finally show ?thesis
    using wf assms(4) by (simp add: position_def tc Let_def)
qed


text \<open>In exact arithmetic the time of node \<open>k\<close> is \<open>tstart + k * tblock\<close>.\<close>

lemma position_node_time_exact:
  assumes "well_formed N s" and "tblock s \<noteq> 0" and "0 \<le> k" and "k < sint (num s)"
  shows "position no_rounding N s (tstart s + of_int k * tblock s) = Inr (r s ! nat k)"
proof (rule position_node_time [OF no_rounding_fixes assms])
  show "no_rounding (no_rounding (tstart s + of_int k * tblock s - tstart s) / tblock s)
          = of_int k"
    using assms(2) by (simp add: no_rounding_def)
qed



subsection \<open>Construction\<close>

lemma SplineFit_ctor_fit5: "SplineFit_ctor zero_fill zero_fill 5 1 0 = Inr fit5"
  by (simp add: SplineFit_ctor_def fit5_def INT_MAX_def)

lemma SplineFit_ctor_ok:
  assumes "- 1 \<le> sint n" and "sint n < INT_MAX"
  shows "SplineFit_ctor ur uv n tb ts =
           Inr \<lparr>num = n, tblock = tb, tstart = ts,
                 r = map ur [0..<nat (sint n + 1)], v = map uv [0..<nat (sint n + 1)],
                 missing = replicate (nat (sint n + 1)) False\<rparr>"
  using assms by (simp add: SplineFit_ctor_def Let_def)

text \<open>
  Claim C8, as stated, fails: the constructor makes no check of the block count, and
  \<open>SplineFit(1, 1, 0)\<close>, a trajectory of one block, is constructed.
\<close>

theorem SplineFit_ctor_one_block_accepted:
  "SplineFit_ctor zero_fill zero_fill 1 1 0 =
     Inr \<lparr>num = 1, tblock = 1, tstart = 0,
           r = [[0, 0, 0], [0, 0, 0]], v = [[0, 0, 0], [0, 0, 0]],
           missing = [False, False]\<rparr>"
  by (simp add: SplineFit_ctor_def INT_MAX_def zero_fill_def upt_rec numeral_eq_Suc)

text \<open>
  Claim C8, amended. Construction makes no check of the block count. For
  \<open>num = -1\<close> (the default), \<open>0\<close> and \<open>1\<close> it succeeds and yields an object whose
  vectors \<open>r\<close>, \<open>v\<close> and \<open>missing\<close> have \<open>num + 1\<close> entries; for \<open>num \<le> -2\<close> it fails,
  because \<open>std::vector\<close> is asked for a negative number of elements and throws.
\<close>

theorem SplineFit_ctor_fewer_than_two_blocks:
  assumes "sint n < 2"
  shows "(sint n \<le> - 2 \<longrightarrow> SplineFit_ctor ur uv n tb ts = Inl LengthError)
       \<and> (- 1 \<le> sint n \<longrightarrow>
            SplineFit_ctor ur uv n tb ts =
              Inr \<lparr>num = n, tblock = tb, tstart = ts,
                    r = map ur [0..<nat (sint n + 1)], v = map uv [0..<nat (sint n + 1)],
                    missing = replicate (nat (sint n + 1)) False\<rparr>)"
proof -
  have "sint n < INT_MAX"
    using assms by (simp add: INT_MAX_def)
  then show ?thesis
    by (auto simp: SplineFit_ctor_ok) (simp add: SplineFit_ctor_def)
qed

theorem SplineFit_ctor_fewer_than_two_blocks_witness:
  "SplineFit_ctor zero_fill zero_fill 0 2 7 =
     Inr \<lparr>num = 0, tblock = 2, tstart = 7, r = [[0, 0, 0]], v = [[0, 0, 0]],
           missing = [False]\<rparr>
   \<and> SplineFit_default zero_fill zero_fill =
       Inr \<lparr>num = - 1, tblock = 1, tstart = 0, r = [], v = [], missing = []\<rparr>
   \<and> SplineFit_ctor zero_fill zero_fill (- 3) 2 7 = Inl LengthError"
  using SplineFit_ctor_fewer_than_two_blocks [of 0 zero_fill zero_fill 2 7]
    SplineFit_ctor_fewer_than_two_blocks [of "- 1" zero_fill zero_fill 1 0]
    SplineFit_ctor_fewer_than_two_blocks [of "- 3" zero_fill zero_fill 2 7]
  by (simp add: SplineFit_default_def zero_fill_def)

text \<open>
  Claim C10, as stated, fails at the largest \<open>int\<close>: for \<open>num = 2147483647\<close> the size
  \<open>num + 1\<close> of the vectors overflows.
\<close>

theorem SplineFit_ctor_INT_MAX_undefined:
  "0 \<le> sint (2147483647 :: 32 word)
   \<and> SplineFit_ctor zero_fill zero_fill 2147483647 1 0 = Inl UndefinedBehaviour"
  by (simp add: SplineFit_ctor_def INT_MAX_def)

text \<open>
  Claim C10, amended. For every \<open>num\<close> with \<open>0 \<le> num < INT_MAX\<close>, after
  \<open>SplineFit(num, tblock, tstart)\<close> the vectors \<open>r\<close>, \<open>v\<close> and \<open>missing\<close> each contain
  exactly \<open>num + 1\<close> entries, and every entry of \<open>missing\<close> is false.
\<close>

theorem SplineFit_ctor_sizes:
  assumes "0 \<le> sint n" and "sint n < INT_MAX"
  shows "\<exists>s. SplineFit_ctor ur uv n tb ts = Inr s
           \<and> num s = n \<and> tblock s = tb \<and> tstart s = ts
           \<and> int (length (r s)) = sint n + 1
           \<and> int (length (v s)) = sint n + 1
           \<and> int (length (missing s)) = sint n + 1
           \<and> list_all (\<lambda>b. \<not> b) (missing s)"
proof -
  have "- 1 \<le> sint n"
    using assms(1) by simp
  then show ?thesis
    using assms by (simp add: SplineFit_ctor_ok list_all_length)
qed

theorem SplineFit_ctor_sizes_witness:
  "\<exists>s. SplineFit_ctor zero_fill zero_fill 5 1 0 = Inr s
         \<and> length (r s) = 6 \<and> length (v s) = 6 \<and> length (missing s) = 6
         \<and> list_all (\<lambda>b. \<not> b) (missing s)"
  using SplineFit_ctor_sizes [of 5 zero_fill zero_fill 1 0]
  by (auto simp: INT_MAX_def)

subsection \<open>Filling missing nodes\<close>

lemma fillmissing_gap3:
  "fillmissing linearfit gap3 =
     (True, gap3\<lparr>r := [[0], [2], [4], [6]], v := [[2], [2], [2], [2]]\<rparr>)"
  by (simp add: fillmissing_def gap3_def fill_node_def next_known_def on_line_def lerp_def
        upt_rec numeral_eq_Suc)

lemma fillmissing_all_missing:
  "list_all (\<lambda>b. b) (missing s) \<Longrightarrow> fillmissing linearfit s = (False, s)"
  by (simp add: fillmissing_def)

text \<open>
  Claim C9. For every SplineFit state and every value of \<open>linearfit\<close>,
  \<open>fillmissing linearfit\<close> leaves the vector \<open>missing\<close> as it was: every node has the same
  flag after the call as before, also the nodes whose position and velocity the call
  overwrites.
\<close>

theorem fillmissing_keeps_missing:
  "missing (snd (fillmissing linearfit s)) = missing s"
  by (simp add: fillmissing_def)

theorem fillmissing_keeps_missing_witness:
  "missing (snd (fillmissing True gap3)) = [True, True, False, False]
   \<and> r (snd (fillmissing True gap3)) = [[0], [2], [4], [6]]
   \<and> r gap3 = [[0], [0], [4], [6]]"
  using fillmissing_keeps_missing [of True gap3]
  by (simp add: fillmissing_gap3) (simp add: gap3_def)

end
